theory Spec2Isabelle
  imports Complex_Main
begin

section \<open>Values held by the table\<close>

text \<open>
  A model of \<open>ExperimentalDataReader.py\<close>: the setters, the conversion to picofarads and
  \<open>read_from_d_t\<close>. The calls of pandas, numpy and \<open>re\<close> that these methods make are
  written out as functions on lists, after what the library does on the frames the
  methods hand to it. Not modelled: the parsing of the two text files by \<open>pd.read_csv\<close>,
  the rounding of floats, the csv and hdf files, the plot.
\<close>

text \<open>
  The class \<open>DataReader\<close> of \<open>ExperimentalDataReader.py\<close> keeps one
  \<open>pandas.DataFrame\<close> in \<open>self.data\<close>. Its numeric cells are 64-bit floats.
  A float that is not NaN is a rational number or an infinity; Python compares numbers
  (ints, floats, bools) by their exact mathematical value, so \<open>Fin q\<close> stands for every
  Python number whose value is \<open>q\<close>. NaN is the null of a numeric column.
\<close>

datatype pyfloat = Fin rat | PInf | NInf | NaN

text \<open>
  An argument handed to a setter. The default \<open>np.nan\<close> is one particular float object;
  \<open>x in allowed_values\<close> finds it by identity, since a NaN is equal to nothing. Any other
  object, also a NaN object that is not \<open>np.nan\<close>, is \<open>Obj\<close> of its value.
\<close>

datatype pyarg = NpNaN | Obj pyfloat

fun as_float :: "pyarg \<Rightarrow> pyfloat" where
  "as_float NpNaN = NaN"
| "as_float (Obj v) = v"

text \<open>
  Every exception this code can raise is a Python \<open>ValueError\<close>. The setters raise it
  themselves, with a message; the other constructors name the places where a library call
  raises it.
\<close>

datatype error =
    ValueError string
  | BroadcastError
  | LengthMismatch
  | TimeDataError
  | DuplicateLabels
  | KeyLengthMismatch

text \<open>
  One row of \<open>self.data\<close>, with the thirteen columns of \<open>__init__\<close>. The index of the
  frame is always \<open>0, 1, ..., n - 1\<close>, so the frame is the list of its rows. \<open>time\<close> is a
  timestamp in whole seconds (\<open>None\<close> is NaT), \<open>specimen_name\<close> a string (\<open>None\<close> is the
  NaN of an unset cell).
\<close>

record row =
  time :: "int option"
  frequency_hz :: pyfloat
  dlts_v :: pyfloat
  temperature_k :: pyfloat
  dlts_pf :: pyfloat
  bs :: pyfloat
  ls :: pyfloat
  f_pulse :: pyfloat
  u1 :: pyfloat
  ur :: pyfloat
  time_between_meas :: pyfloat
  integral_time :: pyfloat
  specimen_name :: "string option"

type_synonym table = "row list"

text \<open>\<open>__init__\<close>: a frame with the thirteen columns and no row.\<close>

definition init_data :: table where
  "init_data = []"

text \<open>A row with a null in every column.\<close>

definition blank_row :: row where
  "blank_row = \<lparr>time = None, frequency_hz = NaN, dlts_v = NaN, temperature_k = NaN,
     dlts_pf = NaN, bs = NaN, ls = NaN, f_pulse = NaN, u1 = NaN, ur = NaN,
     time_between_meas = NaN, integral_time = NaN, specimen_name = None\<rparr>"

section \<open>The setters\<close>

text \<open>
  \<open>x in allowed_values\<close> on a Python list: some element is the same object as \<open>x\<close> or is
  equal to it. The lists end with \<open>np.nan\<close>, which only \<open>np.nan\<close> itself matches; the
  numbers before it are matched by value. \<open>allowed\<close> holds those numbers.
\<close>

definition py_in :: "pyarg \<Rightarrow> rat list \<Rightarrow> bool" where
  "py_in x allowed = (case x of NpNaN \<Rightarrow> True | Obj v \<Rightarrow> v \<in> Fin ` set allowed)"

fun join :: "string \<Rightarrow> string list \<Rightarrow> string" where
  "join sep [] = []"
| "join sep [x] = x"
| "join sep (x # y # ys) = x @ sep @ join sep (y # ys)"

text \<open>The float that the literal \<open>0.3\<close> denotes: \<open>5404319552844595 / 2 ^ 54\<close>.\<close>

definition float_0_3 :: rat where
  "float_0_3 = 5404319552844595 / 18014398509481984"

definition bs_allowed :: "rat list" where
  "bs_allowed = [1, 10, 100, 1000]"

definition ls_allowed :: "rat list" where
  "ls_allowed = [1, 2, 5, 10, 20, 50, 100, 200, 500, 1000]"

definition integral_time_allowed :: "rat list" where
  "integral_time_allowed = [float_0_3, 1, 3, 10, 30]"

text \<open>
  The messages: \<open>'bs value must be ' + ', '.join(str(_) for _ in allowed_values[:-1]) + ' or NaN'\<close>,
  with \<open>str\<close> of each literal written out (\<open>str(0.3)\<close> is \<open>'0.3'\<close>).
\<close>

definition bs_error_message :: string where
  "bs_error_message =
     ''bs value must be '' @ join '', '' [''1'', ''10'', ''100'', ''1000''] @ '' or NaN''"

definition ls_error_message :: string where
  "ls_error_message =
     ''ls value must be '' @
     join '', '' [''1'', ''2'', ''5'', ''10'', ''20'', ''50'', ''100'', ''200'', ''500'', ''1000''] @
     '' or NaN''"

definition integral_time_error_message :: string where
  "integral_time_error_message =
     ''time value must be '' @ join '', '' [''0.3'', ''1'', ''3'', ''10'', ''30''] @ '' or NaN''"

text \<open>
  A setter returns the exception it raised, if any, and \<open>self.data\<close> as the call leaves it.
  \<open>self.data.bs = bs\<close> assigns the scalar to the column \<open>bs\<close>, that is to every row.
\<close>

definition set_bs :: "table \<Rightarrow> pyarg \<Rightarrow> error option \<times> table" where
  "set_bs self_data v =
     (if py_in v bs_allowed
      then (None, map (\<lambda>r. r\<lparr>bs := as_float v\<rparr>) self_data)
      else (Some (ValueError bs_error_message), self_data))"

definition set_ls :: "table \<Rightarrow> pyarg \<Rightarrow> error option \<times> table" where
  "set_ls self_data v =
     (if py_in v ls_allowed
      then (None, map (\<lambda>r. r\<lparr>ls := as_float v\<rparr>) self_data)
      else (Some (ValueError ls_error_message), self_data))"

definition set_integral_time :: "table \<Rightarrow> pyarg \<Rightarrow> error option \<times> table" where
  "set_integral_time self_data v =
     (if py_in v integral_time_allowed
      then (None, map (\<lambda>r. r\<lparr>integral_time := as_float v\<rparr>) self_data)
      else (Some (ValueError integral_time_error_message), self_data))"

definition set_specimen_name :: "table \<Rightarrow> string \<Rightarrow> error option \<times> table" where
  "set_specimen_name self_data v = (None, map (\<lambda>r. r\<lparr>specimen_name := Some v\<rparr>) self_data)"

definition set_f_pulse :: "table \<Rightarrow> pyarg \<Rightarrow> error option \<times> table" where
  "set_f_pulse self_data v = (None, map (\<lambda>r. r\<lparr>f_pulse := as_float v\<rparr>) self_data)"

definition set_u1 :: "table \<Rightarrow> pyarg \<Rightarrow> error option \<times> table" where
  "set_u1 self_data v = (None, map (\<lambda>r. r\<lparr>u1 := as_float v\<rparr>) self_data)"

definition set_ur :: "table \<Rightarrow> pyarg \<Rightarrow> error option \<times> table" where
  "set_ur self_data v = (None, map (\<lambda>r. r\<lparr>ur := as_float v\<rparr>) self_data)"

definition set_time_between_meas :: "table \<Rightarrow> pyarg \<Rightarrow> error option \<times> table" where
  "set_time_between_meas self_data v =
     (None, map (\<lambda>r. r\<lparr>time_between_meas := as_float v\<rparr>) self_data)"

section \<open>The conversion to picofarads\<close>

text \<open>
  \<open>self.data.dlts_pf = self.data.dlts_v / ((10 / self.data.bs) * (10000 / self.data.ls))\<close>,
  row by row. The rounding of float division and multiplication is not modelled: the two
  operations on operands that are not NaN are the parameters \<open>fdiv\<close> and \<open>fmul\<close>. An
  operation with a NaN operand gives NaN and raises nothing.
\<close>

definition nan_op :: "(pyfloat \<Rightarrow> pyfloat \<Rightarrow> pyfloat) \<Rightarrow> pyfloat \<Rightarrow> pyfloat \<Rightarrow> pyfloat" where
  "nan_op f a b = (if a = NaN \<or> b = NaN then NaN else f a b)"

definition compute_dlts_pf ::
  "(pyfloat \<Rightarrow> pyfloat \<Rightarrow> pyfloat) \<Rightarrow> (pyfloat \<Rightarrow> pyfloat \<Rightarrow> pyfloat) \<Rightarrow> table \<Rightarrow> table" where
  "compute_dlts_pf fdiv fmul self_data =
     map (\<lambda>r. r\<lparr>dlts_pf :=
            nan_op fdiv (dlts_v r)
              (nan_op fmul (nan_op fdiv (Fin 10) (bs r)) (nan_op fdiv (Fin 10000) (ls r)))\<rparr>)
         self_data"

text \<open>
  Exact arithmetic, one possible value of the parameters: the quotient and the product
  without rounding, a finite number divided by zero an infinity of its sign. It is used to
  run the conversion on examples.
\<close>

fun exact_div :: "pyfloat \<Rightarrow> pyfloat \<Rightarrow> pyfloat" where
  "exact_div (Fin a) (Fin b) =
     (if b \<noteq> 0 then Fin (a / b) else if a = 0 then NaN else if 0 < a then PInf else NInf)"
| "exact_div (Fin a) PInf = Fin 0"
| "exact_div (Fin a) NInf = Fin 0"
| "exact_div PInf (Fin b) = (if 0 \<le> b then PInf else NInf)"
| "exact_div NInf (Fin b) = (if 0 \<le> b then NInf else PInf)"
| "exact_div a b = NaN"

fun exact_mul :: "pyfloat \<Rightarrow> pyfloat \<Rightarrow> pyfloat" where
  "exact_mul (Fin a) (Fin b) = Fin (a * b)"
| "exact_mul PInf (Fin b) = (if b = 0 then NaN else if 0 < b then PInf else NInf)"
| "exact_mul NInf (Fin b) = (if b = 0 then NaN else if 0 < b then NInf else PInf)"
| "exact_mul (Fin a) PInf = (if a = 0 then NaN else if 0 < a then PInf else NInf)"
| "exact_mul (Fin a) NInf = (if a = 0 then NaN else if 0 < a then NInf else PInf)"
| "exact_mul PInf PInf = PInf"
| "exact_mul NInf NInf = PInf"
| "exact_mul PInf NInf = NInf"
| "exact_mul NInf PInf = NInf"
| "exact_mul a b = NaN"

text \<open>A table of two rows for the examples.\<close>

definition example_table :: table where
  "example_table =
     [blank_row\<lparr>time := Some 0, frequency_hz := Fin 1, dlts_v := Fin (1 / 2),
        dlts_pf := Fin 7, bs := Fin 10, ls := Fin 100\<rparr>,
      blank_row\<lparr>time := Some 5, frequency_hz := Fin 2, dlts_v := Fin 3,
        dlts_pf := Fin 8, bs := Fin 10, ls := NaN\<rparr>]"

section \<open>Reading the two legacy files\<close>

text \<open>
  \<open>read_from_d_t\<close> takes the text of the DLTS file, as \<open>f.read()\<close> returns it, and the
  two frames that \<open>pd.read_csv\<close> returns for the two files: a DLTS line is its time of day
  (a string), its frequency and its signal; a temperature line is its time of day and its
  temperature. Parsing the text of the files into these frames is the library's work and is
  not modelled, but for one case: a temperature file without data rows. For it
  \<open>pd.read_csv\<close>, with \<open>usecols=[0, 3]\<close> and two names, returns a frame that has the
  column \<open>time\<close> and no column \<open>temperature_k\<close>. The empty list stands for that frame.
\<close>

type_synonym dlts_line = "string \<times> pyfloat \<times> pyfloat"
type_synonym temperature_line = "string \<times> pyfloat"

subsection \<open>The date\<close>

text \<open>
  \<open>re.findall('\d\d\.\d\d\.\d\d\d\d', f.read())\<close>: every match of the pattern, from left
  to right, the search going on after the end of each match. The result is a list of
  strings. A character is a \<open>char\<close> here, and a digit one of \<open>0\<close> to \<open>9\<close>.
\<close>

definition is_digit :: "char \<Rightarrow> bool" where
  "is_digit c = (c \<in> set ''0123456789'')"

fun match_date :: "string \<Rightarrow> bool" where
  "match_date (a # b # p # c # d # q # e # f # g # h # rest) =
     (is_digit a \<and> is_digit b \<and> p = CHR ''.'' \<and> is_digit c \<and> is_digit d \<and> q = CHR ''.'' \<and>
      is_digit e \<and> is_digit f \<and> is_digit g \<and> is_digit h)"
| "match_date s = False"

function findall_date :: "string \<Rightarrow> string list" where
  "findall_date [] = []"
| "findall_date (c # cs) =
     (if match_date (c # cs) then take 10 (c # cs) # findall_date (drop 9 cs)
      else findall_date cs)"
  by pat_completeness auto
termination
  by (relation "measure length") auto

text \<open>
  \<open>series + date_str\<close>, a Series of strings plus a list: the list becomes an array and the
  addition is numpy's, element by element, with broadcasting. Equal lengths pair the
  elements; a list of one element is added to every element; a Series of one element and a
  list of another length give an array that does not fit the index of the Series; any
  other two lengths cannot be broadcast.
\<close>

definition series_add_list :: "string list \<Rightarrow> string list \<Rightarrow> error + string list" where
  "series_add_list xs ys =
     (if length ys = length xs then Inr (map2 (@) xs ys)
      else case ys of
             [y] \<Rightarrow> Inr (map (\<lambda>x. x @ y) xs)
           | _ \<Rightarrow> if length xs = 1 then Inl LengthMismatch else Inl BroadcastError)"

text \<open>
  \<open>pd.to_datetime(series, format='%H:%M:%S %d.%m.%Y')\<close> parses every string or raises.
  The parser of one string is the parameter \<open>to_datetime\<close>: the timestamp in seconds, or
  \<open>None\<close> where pandas raises.
\<close>

fun to_datetime_series :: "(string \<Rightarrow> int option) \<Rightarrow> string list \<Rightarrow> error + int list" where
  "to_datetime_series to_datetime [] = Inr []"
| "to_datetime_series to_datetime (x # xs) =
     (case to_datetime x of
        None \<Rightarrow> Inl TimeDataError
      | Some t \<Rightarrow>
          (case to_datetime_series to_datetime xs of
             Inl e \<Rightarrow> Inl e
           | Inr ts \<Rightarrow> Inr (t # ts)))"

text \<open>
  Lines 138-139, and 141-142 for the temperature:
  \<open>data['time'] = data.time + ' ' + date_str\<close>, then \<open>pd.to_datetime\<close>.
\<close>

definition reconstruct_time ::
  "(string \<Rightarrow> int option) \<Rightarrow> string list \<Rightarrow> string list \<Rightarrow> error + int list" where
  "reconstruct_time to_datetime time_col date_str =
     (case series_add_list (map (\<lambda>t. t @ '' '') time_col) date_str of
        Inl e \<Rightarrow> Inl e
      | Inr xs \<Rightarrow> to_datetime_series to_datetime xs)"

subsection \<open>The grid of seconds and the join\<close>

text \<open>
  \<open>temperature_data.resample('S').ffill()\<close>, on the frame indexed by its timestamps. The
  resampler sorts the frame by its index (a stable sort) and reindexes it, with the method
  \<open>ffill\<close>, on every second from the first timestamp to the last: a second of the grid
  takes the row with the greatest timestamp at or before it. Pandas reindexes with a
  method only an index without duplicates, and raises on any other. A frame without rows
  gives a grid without rows.
\<close>

definition ffill_at :: "(int \<times> pyfloat) list \<Rightarrow> int \<Rightarrow> pyfloat" where
  "ffill_at obj g =
     (case filter (\<lambda>(t, v). t \<le> g) obj of
        [] \<Rightarrow> NaN
      | x # xs \<Rightarrow> snd (last (x # xs)))"

definition resample_ffill :: "(int \<times> pyfloat) list \<Rightarrow> error + (int \<times> pyfloat) list" where
  "resample_ffill temperature_data =
     (let obj = sort_key fst temperature_data in
      if obj = [] then Inr []
      else if \<not> distinct (map fst obj) then Inl DuplicateLabels
      else Inr (map (\<lambda>g. (g, ffill_at obj g)) [fst (hd obj) .. fst (last obj)]))"

text \<open>
  \<open>dlts_data.merge(right=temperature_data, how='left', on='time')\<close>: a left join on the
  timestamp. Every row of the left frame, in the order of the left frame, is paired with
  every row of the right frame that has its timestamp, and with a NaN temperature when
  there is none.
\<close>

type_synonym merged_row = "int \<times> pyfloat \<times> pyfloat \<times> pyfloat"

definition merge_left ::
  "(int \<times> pyfloat \<times> pyfloat) list \<Rightarrow> (int \<times> pyfloat) list \<Rightarrow> merged_row list" where
  "merge_left left right =
     concat (map (\<lambda>(t, f, v).
       (case filter (\<lambda>(g, k). g = t) right of
          [] \<Rightarrow> [(t, f, v, NaN)]
        | m # ms \<Rightarrow> map (\<lambda>(g, k). (t, f, v, k)) (m # ms))) left)"

text \<open>
  \<open>self.data[column_list] = merged\<close> assigns the four columns one by one, each aligned on
  the index of \<open>self.data\<close>. A frame without rows takes the index of the assigned column,
  its other columns filled with NaN. A frame with rows keeps its index: row \<open>i\<close> takes the
  values of row \<open>i\<close> of the merged frame, or nulls when the merged frame has no row \<open>i\<close>,
  and rows of the merged frame past the end of \<open>self.data\<close> are not stored.
\<close>

definition set_merged :: "row \<Rightarrow> merged_row \<Rightarrow> row" where
  "set_merged r m =
     (case m of (t, f, v, k) \<Rightarrow>
        r\<lparr>time := Some t, frequency_hz := f, dlts_v := v, temperature_k := k\<rparr>)"

definition set_missing :: "row \<Rightarrow> row" where
  "set_missing r = r\<lparr>time := None, frequency_hz := NaN, dlts_v := NaN, temperature_k := NaN\<rparr>"

definition setitem_columns :: "table \<Rightarrow> merged_row list \<Rightarrow> table" where
  "setitem_columns self_data merged =
     (if self_data = [] then map (set_merged blank_row) merged
      else map (\<lambda>(i, r). if i < length merged then set_merged r (merged ! i) else set_missing r)
             (enumerate 0 self_data))"

text \<open>
  \<open>read_from_d_t\<close>. \<open>Inl\<close> is the exception raised, \<open>Inr\<close> is \<open>self.data\<close> after the
  call. The frame of a temperature file without data rows has no column \<open>temperature_k\<close>,
  so the merged frame has three columns, and the assignment of line 148 to the four
  columns of \<open>column_list\<close> raises (\<open>Columns must be same length as key\<close>) before it
  assigns anything. Every exception leaves \<open>self.data\<close> what it was.
\<close>

definition read_from_d_t ::
  "(string \<Rightarrow> int option) \<Rightarrow> table \<Rightarrow> string \<Rightarrow> dlts_line list \<Rightarrow> temperature_line list \<Rightarrow>
     error + table" where
  "read_from_d_t to_datetime self_data content dlts_data temperature_data =
     (let date_str = findall_date content in
      case reconstruct_time to_datetime (map fst dlts_data) date_str of
        Inl e \<Rightarrow> Inl e
      | Inr dlts_time \<Rightarrow>
     (case reconstruct_time to_datetime (map fst temperature_data) date_str of
        Inl e \<Rightarrow> Inl e
      | Inr temperature_time \<Rightarrow>
     (case resample_ffill (zip temperature_time (map snd temperature_data)) of
        Inl e \<Rightarrow> Inl e
      | Inr grid \<Rightarrow>
          if temperature_data = [] then Inl KeyLengthMismatch
          else Inr (setitem_columns self_data
                      (merge_left (zip dlts_time (map snd dlts_data)) grid)))))"

subsection \<open>A parser for the examples\<close>

text \<open>
  One possible value of the parameter \<open>to_datetime\<close>, used to run \<open>read_from_d_t\<close> on
  examples: the strings of the form \<open>HH:MM:SS DD.MM.YYYY\<close> with two digits in each field
  of the time and of the day and month, and a date of the calendar; the result is the
  number of seconds since 1970-01-01 00:00:00.
\<close>

definition digit_val :: "char \<Rightarrow> int" where
  "digit_val c = int (of_char c) - 48"

definition two_digits :: "string \<Rightarrow> nat \<Rightarrow> int" where
  "two_digits s i = 10 * digit_val (s ! i) + digit_val (s ! (i + 1))"

definition is_leap :: "int \<Rightarrow> bool" where
  "is_leap y = (y mod 4 = 0 \<and> (y mod 100 \<noteq> 0 \<or> y mod 400 = 0))"

definition days_in_month :: "int \<Rightarrow> int \<Rightarrow> int" where
  "days_in_month y m =
     (if m = 2 then (if is_leap y then 29 else 28)
      else if m = 4 \<or> m = 6 \<or> m = 9 \<or> m = 11 then 30 else 31)"

definition days_from_civil :: "int \<Rightarrow> int \<Rightarrow> int \<Rightarrow> int" where
  "days_from_civil y m d =
     (let y' = (if m \<le> 2 then y - 1 else y);
          era = y' div 400;
          yoe = y' - era * 400;
          doy = (153 * ((m + 9) mod 12) + 2) div 5 + d - 1;
          doe = yoe * 365 + yoe div 4 - yoe div 100 + doy
      in era * 146097 + doe - 719468)"

definition strptime_hms_dmy :: "string \<Rightarrow> int option" where
  "strptime_hms_dmy s =
     (if length s = 19 \<and>
         list_all (\<lambda>i. is_digit (s ! i)) [0, 1, 3, 4, 6, 7, 9, 10, 12, 13, 15, 16, 17, 18] \<and>
         s ! 2 = CHR '':'' \<and> s ! 5 = CHR '':'' \<and> s ! 8 = CHR '' '' \<and>
         s ! 11 = CHR ''.'' \<and> s ! 14 = CHR ''.''
      then
        (let h = two_digits s 0; mi = two_digits s 3; sec = two_digits s 6;
             d = two_digits s 9; m = two_digits s 12;
             y = 100 * two_digits s 15 + two_digits s 17
         in if h \<le> 23 \<and> mi \<le> 59 \<and> sec \<le> 59 \<and> 1 \<le> m \<and> m \<le> 12 \<and>
               1 \<le> d \<and> d \<le> days_in_month y m
            then Some (86400 * days_from_civil y m d + 3600 * h + 60 * mi + sec)
            else None)
      else None)"

subsection \<open>Inputs of the examples\<close>

text \<open>
  The text of a DLTS file with one date, and of one with two; the DLTS frame and the
  temperature frame of the scenario of 01.01.2024: signal rows at 09:00:00 and 09:00:05,
  one temperature row, 300 K at 09:00:02.
\<close>

definition one_date_text :: string where
  "one_date_text = ''# DLTS 01.01.2024'' @ [CHR 0x0A] @ ''09:00:00 1 1000 0.5''"

definition two_dates_text :: string where
  "two_dates_text = ''# DLTS 01.01.2024, calibrated 15.12.2023'' @ [CHR 0x0A] @ ''09:00:00 1 1000 0.5''"

definition scenario_dlts :: "dlts_line list" where
  "scenario_dlts = [(''09:00:00'', Fin 1000, Fin (1 / 2)), (''09:00:05'', Fin 1000, Fin (1 / 4))]"

definition scenario_temperature :: "temperature_line list" where
  "scenario_temperature = [(''09:00:02'', Fin 300)]"

definition three_dlts :: "dlts_line list" where
  "three_dlts =
     [(''09:00:00'', Fin 1000, Fin (1 / 2)), (''09:00:05'', Fin 1000, Fin (1 / 4)),
      (''09:00:06'', Fin 1000, Fin (1 / 8))]"

text \<open>
  The table of a reader that has read the scenario once: two rows. It is the state of the
  reader when the same reader reads a second pair of files.
\<close>

definition after_first_read :: table where
  "after_first_read =
     (case read_from_d_t strptime_hms_dmy init_data one_date_text scenario_dlts scenario_temperature of
        Inl e \<Rightarrow> []
      | Inr t \<Rightarrow> t)"

section \<open>The grid and the join\<close>

lemma filter_eq_distinct:
  "distinct xs \<Longrightarrow> filter (\<lambda>x. x = a) xs = (if a \<in> set xs then [a] else [])"
  by (induction xs) auto

lemma grid_lookup:
  "filter (\<lambda>(g, k). g = s) (map (\<lambda>g. (g, f g)) [lo..hi]) =
     (if lo \<le> s \<and> s \<le> hi then [(s, f s)] else [])"
proof -
  have "filter (\<lambda>(g, k). g = s) (map (\<lambda>g. (g, f g)) [lo..hi]) =
      map (\<lambda>g. (g, f g)) (filter (\<lambda>g. g = s) [lo..hi])"
    by (simp add: filter_map comp_def)
  then show ?thesis
    by (simp add: filter_eq_distinct)
qed

lemma merge_left_grid:
  "merge_left left (map (\<lambda>g. (g, f g)) [lo..hi]) =
     map (\<lambda>(t, fr, v). (t, fr, v, if lo \<le> t \<and> t \<le> hi then f t else NaN)) left"
  by (induction left) (auto simp: merge_left_def grid_lookup)

lemma merge_left_Nil: "merge_left left [] = map (\<lambda>(t, fr, v). (t, fr, v, NaN)) left"
  by (induction left) (auto simp: merge_left_def)

lemma sorted_hd_le: "sorted xs \<Longrightarrow> x \<in> set xs \<Longrightarrow> hd xs \<le> (x::int)"
  by (cases xs) auto

lemma sorted_le_last: "sorted xs \<Longrightarrow> x \<in> set xs \<Longrightarrow> (x::int) \<le> last xs"
  by (induction xs) auto

lemma distinct_map_sort_key: "distinct (map f (sort_key f xs)) = distinct (map f xs)"
  by (induction xs) (simp_all add: distinct_insort_key)

lemma ffill_at_latest:
  assumes "sorted (map fst obj)" and "(t0, v0) \<in> set obj" and "t0 \<le> g"
  shows "\<exists>t v. (t, v) \<in> set obj \<and> t \<le> g \<and> (\<forall>(t', v') \<in> set obj. t' \<le> g \<longrightarrow> t' \<le> t) \<and>
           ffill_at obj g = v"
proof -
  let ?xs = "filter (\<lambda>(t, v). t \<le> g) obj"
  have ne: "?xs \<noteq> []"
    using assms(2,3) by (auto simp: filter_empty_conv)
  have srt: "sorted (map fst ?xs)"
    using assms(1) by (rule sorted_filter)
  have mem: "last ?xs \<in> set ?xs"
    using ne by (rule last_in_set)
  have val: "ffill_at obj g = snd (last ?xs)"
    using ne by (simp add: ffill_at_def split: list.splits)
  have top: "t' \<le> fst (last ?xs)" if "(t', v') \<in> set obj" "t' \<le> g" for t' v'
  proof -
    have "t' \<in> set (map fst ?xs)"
      using that by force
    then have "t' \<le> last (map fst ?xs)"
      using srt by (intro sorted_le_last)
    then show ?thesis
      using ne by (simp add: last_map)
  qed
  show ?thesis
    using mem val top by (intro exI [of _ "fst (last ?xs)"] exI [of _ "snd (last ?xs)"]) auto
qed


lemma sort_key_eq_Nil: "sort_key f xs = [] \<longleftrightarrow> xs = []"
  using length_sort [of f xs] by (metis length_0_conv)

lemma resample_ffill_Inr:
  assumes "resample_ffill temp = Inr grid"
  shows "distinct (map fst temp)"
    and "grid = (if temp = [] then []
           else map (\<lambda>g. (g, ffill_at (sort_key fst temp) g))
                  [fst (hd (sort_key fst temp)) .. fst (last (sort_key fst temp))])"
  using assms
  by (auto simp: resample_ffill_def Let_def distinct_map_sort_key sort_key_eq_Nil
      split: if_splits)

lemma resample_ffill_duplicates:
  "\<not> distinct (map fst temp) \<Longrightarrow> resample_ffill temp = Inl DuplicateLabels"
  by (auto simp: resample_ffill_def Let_def distinct_map_sort_key sort_key_eq_Nil)

lemma resample_ffill_distinct:
  "distinct (map fst temp) \<Longrightarrow> \<exists>grid. resample_ffill temp = Inr grid"
  by (auto simp: resample_ffill_def Let_def distinct_map_sort_key)

lemma in_grid_iff:
  fixes temp :: "(int \<times> 'v) list"
  assumes "temp \<noteq> []"
  shows "fst (hd (sort_key fst temp)) \<le> s \<and> s \<le> fst (last (sort_key fst temp)) \<longleftrightarrow>
         (\<exists>x \<in> set temp. fst x \<le> s) \<and> (\<exists>x \<in> set temp. s \<le> fst x)"
proof -
  let ?obj = "sort_key fst temp"
  let ?ks = "map fst ?obj"
  have ne: "?obj \<noteq> []"
    using assms by (simp add: sort_key_eq_Nil)
  have srt: "sorted ?ks"
    by (rule sorted_sort_key)
  have ks: "set ?ks = fst ` set temp"
    by simp
  have hd_eq: "fst (hd ?obj) = hd ?ks" and last_eq: "fst (last ?obj) = last ?ks"
    using ne by (simp_all add: hd_map last_map)
  have hd_in: "hd ?ks \<in> fst ` set temp" and last_in: "last ?ks \<in> fst ` set temp"
    using ne ks hd_in_set [of ?ks] last_in_set [of ?ks] by auto
  have lo: "hd ?ks \<le> fst x" and hi: "fst x \<le> last ?ks" if "x \<in> set temp" for x
    using that srt ks sorted_hd_le [of ?ks "fst x"] sorted_le_last [of ?ks "fst x"] by auto
  show ?thesis
    unfolding hd_eq last_eq
  proof (intro iffI conjI)
    assume "hd ?ks \<le> s \<and> s \<le> last ?ks"
    then show "\<exists>x \<in> set temp. fst x \<le> s" "\<exists>x \<in> set temp. s \<le> fst x"
      using hd_in last_in by force+
  next
    assume h: "(\<exists>x \<in> set temp. fst x \<le> s) \<and> (\<exists>x \<in> set temp. s \<le> fst x)"
    then show "hd ?ks \<le> s"
      using lo by (meson order_trans)
    from h show "s \<le> last ?ks"
      using hi by (meson order_trans)
  qed
qed

lemma merge_left_resampled:
  assumes "resample_ffill temp = Inr grid"
  shows "merge_left left grid =
     map (\<lambda>(t, fr, v). (t, fr, v,
            if (\<exists>x \<in> set temp. fst x \<le> t) \<and> (\<exists>x \<in> set temp. t \<le> fst x)
            then ffill_at (sort_key fst temp) t else NaN)) left"
proof (cases "temp = []")
  case True
  then show ?thesis
    using resample_ffill_Inr(2) [OF assms] by (simp add: merge_left_Nil)
next
  case False
  then have "grid = map (\<lambda>g. (g, ffill_at (sort_key fst temp) g))
      [fst (hd (sort_key fst temp)) .. fst (last (sort_key fst temp))]"
    using resample_ffill_Inr(2) [OF assms] by simp
  then show ?thesis
    by (simp only: merge_left_grid in_grid_iff [OF False])
qed

lemma to_datetime_series_length:
  "to_datetime_series td xs = Inr ts \<Longrightarrow> length ts = length xs"
  by (induction xs arbitrary: ts) (auto split: option.splits sum.splits)

lemma series_add_list_length: "series_add_list xs ys = Inr zs \<Longrightarrow> length zs = length xs"
  by (auto simp: series_add_list_def split: if_splits list.splits)

lemma reconstruct_time_length:
  "reconstruct_time td xs ds = Inr ts \<Longrightarrow> length ts = length xs"
  by (auto simp: reconstruct_time_def split: sum.splits
      dest!: to_datetime_series_length series_add_list_length)

lemma read_from_d_t_Inr:
  "read_from_d_t td self_data content dlts_data temperature_data = Inr t \<longleftrightarrow>
     (\<exists>dts tts grid.
        reconstruct_time td (map fst dlts_data) (findall_date content) = Inr dts \<and>
        reconstruct_time td (map fst temperature_data) (findall_date content) = Inr tts \<and>
        resample_ffill (zip tts (map snd temperature_data)) = Inr grid \<and>
        temperature_data \<noteq> [] \<and>
        t = setitem_columns self_data (merge_left (zip dts (map snd dlts_data)) grid))"
  by (auto simp: read_from_d_t_def Let_def split: sum.splits)

lemma read_from_d_t_no_temperature:
  "\<exists>e. read_from_d_t td self_data content dlts_data [] = Inl e"
  by (auto simp: read_from_d_t_def Let_def split: sum.splits)

lemma length_setitem_columns:
  "length (setitem_columns self_data m) = (if self_data = [] then length m else length self_data)"
  by (simp add: setitem_columns_def)

lemma nth_setitem_columns:
  assumes "i < length (setitem_columns self_data m)" and "i < length m"
  shows "setitem_columns self_data m ! i =
           set_merged (if self_data = [] then blank_row else self_data ! i) (m ! i)"
  using assms by (auto simp: setitem_columns_def nth_enumerate_eq)

section \<open>The reconstruction of the timestamps\<close>

lemma series_add_list_one: "series_add_list xs [d] = Inr (map (\<lambda>x. x @ d) xs)"
proof (cases "length xs = 1")
  case True
  then obtain x where "xs = [x]"
    by (cases xs) auto
  then show ?thesis
    by (simp add: series_add_list_def)
next
  case False
  then show ?thesis
    by (auto simp: series_add_list_def)
qed

lemma series_add_list_nth:
  assumes "series_add_list xs ys = Inr zs" and "i < length xs"
  shows "\<exists>y \<in> set ys. zs ! i = xs ! i @ y"
proof (cases "length ys = length xs")
  case True
  then have "zs = map2 (@) xs ys"
    using assms(1) by (simp add: series_add_list_def)
  then show ?thesis
    using True assms(2) by (auto intro!: bexI [of _ "ys ! i"])
next
  case False
  then obtain y where "ys = [y]" "zs = map (\<lambda>x. x @ y) xs"
    using assms(1) by (auto simp: series_add_list_def split: list.splits if_splits)
  then show ?thesis
    using assms(2) by simp
qed

lemma to_datetime_series_nth:
  "to_datetime_series td xs = Inr ts \<Longrightarrow> i < length xs \<Longrightarrow> td (xs ! i) = Some (ts ! i)"
proof (induction xs arbitrary: ts i)
  case Nil
  then show ?case by simp
next
  case (Cons x xs)
  then show ?case
    by (cases i) (auto split: option.splits sum.splits)
qed

lemma to_datetime_series_total:
  "\<forall>x \<in> set xs. td x \<noteq> None \<Longrightarrow> \<exists>ts. to_datetime_series td xs = Inr ts"
  by (induction xs) auto

lemma reconstruct_time_nth:
  assumes "reconstruct_time td xs ds = Inr ts" and "i < length xs"
  shows "\<exists>d \<in> set ds. td (xs ! i @ '' '' @ d) = Some (ts ! i)"
proof -
  obtain zs where zs: "series_add_list (map (\<lambda>t. t @ '' '') xs) ds = Inr zs"
    and ts: "to_datetime_series td zs = Inr ts"
    using assms(1) by (auto simp: reconstruct_time_def split: sum.splits)
  have len: "length zs = length xs"
    using series_add_list_length [OF zs] by simp
  obtain d where "d \<in> set ds" "zs ! i = (xs ! i @ '' '') @ d"
    using series_add_list_nth [OF zs] assms(2) by auto
  then show ?thesis
    using to_datetime_series_nth [OF ts, of i] assms(2) len by auto
qed

lemma reconstruct_time_one_date:
  "reconstruct_time td xs [d] = to_datetime_series td (map (\<lambda>x. x @ '' '' @ d) xs)"
  by (simp add: reconstruct_time_def series_add_list_one comp_def)

lemma reconstruct_time_no_date:
  "reconstruct_time td xs [] =
     (if xs = [] then Inr [] else if length xs = 1 then Inl LengthMismatch else Inl BroadcastError)"
  by (auto simp: reconstruct_time_def series_add_list_def)

lemma map_fst_zip_eq: "length xs = length ys \<Longrightarrow> map fst (zip xs ys) = xs"
  by simp

lemma temperature_k_set_merged: "temperature_k (set_merged r (a, b, c, k)) = k"
  by (simp add: set_merged_def)

lemma set_merged_sel:
  "time (set_merged r (a, b, c, k)) = Some a"
  "frequency_hz (set_merged r (a, b, c, k)) = b"
  "dlts_v (set_merged r (a, b, c, k)) = c"
  by (simp_all add: set_merged_def)

section \<open>Properties of the setters and of the conversion\<close>

lemma bs_error_message_eq: "bs_error_message = ''bs value must be 1, 10, 100, 1000 or NaN''"
  by (simp add: bs_error_message_def)

lemma ls_error_message_eq:
  "ls_error_message = ''ls value must be 1, 2, 5, 10, 20, 50, 100, 200, 500, 1000 or NaN''"
  by (simp add: ls_error_message_def)

lemma integral_time_error_message_eq:
  "integral_time_error_message = ''time value must be 0.3, 1, 3, 10, 30 or NaN''"
  by (simp add: integral_time_error_message_def)

lemma py_in_iff: "py_in x allowed \<longleftrightarrow> x = NpNaN \<or> (\<exists>q \<in> set allowed. x = Obj (Fin q))"
  by (cases x) (auto simp: py_in_def)

lemma not_py_in: "as_float x \<notin> insert NaN (Fin ` set allowed) \<Longrightarrow> \<not> py_in x allowed"
  by (cases x) (auto simp: py_in_def)

text \<open>
  A NaN that is not the object \<open>np.nan\<close>, such as \<open>float('nan')\<close>, is in no list: the
  three checking setters reject it.
\<close>

lemma other_nan_rejected:
  "fst (set_bs t (Obj NaN)) \<noteq> None \<and> fst (set_ls t (Obj NaN)) \<noteq> None \<and>
   fst (set_integral_time t (Obj NaN)) \<noteq> None"
  by (simp add: set_bs_def set_ls_def set_integral_time_def py_in_def image_iff)

lemma np_nan_accepted:
  "set_bs t NpNaN = (None, map (\<lambda>r. r\<lparr>bs := NaN\<rparr>) t)"
  by (simp add: set_bs_def py_in_def)

subsection \<open>A rejected value\<close>

text \<open>
  C5. A value outside the allowed set of \<open>set_bs\<close>, \<open>set_ls\<close> or \<open>set_integral_time\<close>
  makes the setter raise a \<open>ValueError\<close> whose message lists the allowed values, and
  \<open>self.data\<close> after the call is \<open>self.data\<close> before it: every column, \<open>dlts_pf\<close>
  included, holds what it held.
\<close>

theorem rejected_value_raises_and_keeps_table:
  "(as_float v \<notin> {Fin 1, Fin 10, Fin 100, Fin 1000, NaN} \<longrightarrow>
      set_bs t v = (Some (ValueError ''bs value must be 1, 10, 100, 1000 or NaN''), t)) \<and>
   (as_float v \<notin> {Fin 1, Fin 2, Fin 5, Fin 10, Fin 20, Fin 50, Fin 100, Fin 200, Fin 500,
        Fin 1000, NaN} \<longrightarrow>
      set_ls t v =
        (Some (ValueError ''ls value must be 1, 2, 5, 10, 20, 50, 100, 200, 500, 1000 or NaN''), t)) \<and>
   (as_float v \<notin> {Fin float_0_3, Fin 1, Fin 3, Fin 10, Fin 30, NaN} \<longrightarrow>
      set_integral_time t v =
        (Some (ValueError ''time value must be 0.3, 1, 3, 10, 30 or NaN''), t))"
proof (intro conjI impI)
  assume "as_float v \<notin> {Fin 1, Fin 10, Fin 100, Fin 1000, NaN}"
  then have "\<not> py_in v bs_allowed"
    by (intro not_py_in) (simp add: bs_allowed_def)
  then show "set_bs t v = (Some (ValueError ''bs value must be 1, 10, 100, 1000 or NaN''), t)"
    by (simp add: set_bs_def bs_error_message_eq)
next
  assume "as_float v \<notin> {Fin 1, Fin 2, Fin 5, Fin 10, Fin 20, Fin 50, Fin 100, Fin 200,
    Fin 500, Fin 1000, NaN}"
  then have "\<not> py_in v ls_allowed"
    by (intro not_py_in) (simp add: ls_allowed_def)
  then show "set_ls t v =
      (Some (ValueError ''ls value must be 1, 2, 5, 10, 20, 50, 100, 200, 500, 1000 or NaN''), t)"
    by (simp add: set_ls_def ls_error_message_eq)
next
  assume "as_float v \<notin> {Fin float_0_3, Fin 1, Fin 3, Fin 10, Fin 30, NaN}"
  then have "\<not> py_in v integral_time_allowed"
    by (intro not_py_in) (simp add: integral_time_allowed_def)
  then show "set_integral_time t v =
      (Some (ValueError ''time value must be 0.3, 1, 3, 10, 30 or NaN''), t)"
    by (simp add: set_integral_time_def integral_time_error_message_eq)
qed

text \<open>
  \<open>set_bs(5)\<close>, \<open>set_ls(3)\<close> and \<open>set_integral_time(0.5)\<close> on the table of the examples.
\<close>

theorem rejected_value_witness:
  "set_bs example_table (Obj (Fin 5)) =
     (Some (ValueError ''bs value must be 1, 10, 100, 1000 or NaN''), example_table) \<and>
   map dlts_pf (snd (set_bs example_table (Obj (Fin 5)))) = [Fin 7, Fin 8] \<and>
   set_ls example_table (Obj (Fin 3)) =
     (Some (ValueError ''ls value must be 1, 2, 5, 10, 20, 50, 100, 200, 500, 1000 or NaN''),
      example_table) \<and>
   set_integral_time example_table (Obj (Fin (1 / 2))) =
     (Some (ValueError ''time value must be 0.3, 1, 3, 10, 30 or NaN''), example_table)"
  using rejected_value_raises_and_keeps_table [of "Obj (Fin 5)" example_table]
    rejected_value_raises_and_keeps_table [of "Obj (Fin 3)" example_table]
    rejected_value_raises_and_keeps_table [of "Obj (Fin (1 / 2))" example_table]
  by (simp add: float_0_3_def example_table_def blank_row_def)

subsection \<open>The conversion\<close>

text \<open>
  C6. \<open>compute_dlts_pf\<close> raises nothing and sets \<open>dlts_pf\<close> of every row to
  \<open>dlts_v / ((10 / bs) * (10000 / ls))\<close>, computed from that row, for the allowed values of
  \<open>bs\<close> and \<open>ls\<close> as for any other; in a row whose \<open>bs\<close> or \<open>ls\<close> is NaN it is NaN.
\<close>

theorem compute_dlts_pf_rows:
  "length (compute_dlts_pf fdiv fmul t) = length t \<and>
   (\<forall>i < length t.
      dlts_pf (compute_dlts_pf fdiv fmul t ! i) =
        nan_op fdiv (dlts_v (t ! i))
          (nan_op fmul (nan_op fdiv (Fin 10) (bs (t ! i))) (nan_op fdiv (Fin 10000) (ls (t ! i)))) \<and>
      (bs (t ! i) = NaN \<or> ls (t ! i) = NaN \<longrightarrow>
         dlts_pf (compute_dlts_pf fdiv fmul t ! i) = NaN))"
  by (simp add: compute_dlts_pf_def nan_op_def)

text \<open>
  With exact arithmetic: \<open>bs = 10\<close>, \<open>ls = 100\<close> and \<open>dlts_v = 0.5\<close> give
  \<open>0.5 / (1 * 100)\<close>; the row without \<open>ls\<close> gets NaN.
\<close>

theorem compute_dlts_pf_rows_witness:
  "length (compute_dlts_pf exact_div exact_mul example_table) = 2 \<and>
   dlts_pf (compute_dlts_pf exact_div exact_mul example_table ! 0) = Fin (1 / 200) \<and>
   ls (example_table ! 1) = NaN \<and>
   dlts_pf (compute_dlts_pf exact_div exact_mul example_table ! 1) = NaN"
  using compute_dlts_pf_rows [of exact_div exact_mul example_table]
  by (simp add: example_table_def blank_row_def nan_op_def)

text \<open>
  C10. \<open>compute_dlts_pf\<close> changes no column but \<open>dlts_pf\<close>, and keeps the number of rows.
\<close>

theorem compute_dlts_pf_frame:
  "length (compute_dlts_pf fdiv fmul t) = length t \<and>
   map time (compute_dlts_pf fdiv fmul t) = map time t \<and>
   map frequency_hz (compute_dlts_pf fdiv fmul t) = map frequency_hz t \<and>
   map dlts_v (compute_dlts_pf fdiv fmul t) = map dlts_v t \<and>
   map temperature_k (compute_dlts_pf fdiv fmul t) = map temperature_k t \<and>
   map bs (compute_dlts_pf fdiv fmul t) = map bs t \<and>
   map ls (compute_dlts_pf fdiv fmul t) = map ls t \<and>
   map f_pulse (compute_dlts_pf fdiv fmul t) = map f_pulse t \<and>
   map u1 (compute_dlts_pf fdiv fmul t) = map u1 t \<and>
   map ur (compute_dlts_pf fdiv fmul t) = map ur t \<and>
   map time_between_meas (compute_dlts_pf fdiv fmul t) = map time_between_meas t \<and>
   map integral_time (compute_dlts_pf fdiv fmul t) = map integral_time t \<and>
   map specimen_name (compute_dlts_pf fdiv fmul t) = map specimen_name t"
  by (simp add: compute_dlts_pf_def comp_def)

subsection \<open>An accepted value\<close>

text \<open>
  C7. Each of the eight setters, called with a value it accepts, raises nothing and
  leaves the table with the rows it had and the given value in every row of its column.
  \<open>set_bs\<close>, \<open>set_ls\<close> and \<open>set_integral_time\<close> accept \<open>np.nan\<close> and the numbers of
  their lists, \<open>0.3\<close> among them; the other five accept every value. No setter that
  returns leaves two rows with different values in its column.
\<close>

theorem setter_broadcasts:
  "(v = NpNaN \<or> as_float v \<in> {Fin 1, Fin 10, Fin 100, Fin 1000} \<longrightarrow>
      set_bs t v = (None, map (\<lambda>r. r\<lparr>bs := as_float v\<rparr>) t)) \<and>
   (v = NpNaN \<or> as_float v \<in> {Fin 1, Fin 2, Fin 5, Fin 10, Fin 20, Fin 50, Fin 100, Fin 200,
        Fin 500, Fin 1000} \<longrightarrow>
      set_ls t v = (None, map (\<lambda>r. r\<lparr>ls := as_float v\<rparr>) t)) \<and>
   (v = NpNaN \<or> as_float v \<in> {Fin float_0_3, Fin 1, Fin 3, Fin 10, Fin 30} \<longrightarrow>
      set_integral_time t v = (None, map (\<lambda>r. r\<lparr>integral_time := as_float v\<rparr>) t)) \<and>
   (fst (set_bs t v) = None \<longrightarrow>
      length (snd (set_bs t v)) = length t \<and> (\<forall>r \<in> set (snd (set_bs t v)). bs r = as_float v)) \<and>
   (fst (set_ls t v) = None \<longrightarrow>
      length (snd (set_ls t v)) = length t \<and> (\<forall>r \<in> set (snd (set_ls t v)). ls r = as_float v)) \<and>
   (fst (set_integral_time t v) = None \<longrightarrow>
      length (snd (set_integral_time t v)) = length t \<and>
      (\<forall>r \<in> set (snd (set_integral_time t v)). integral_time r = as_float v)) \<and>
   (fst (set_f_pulse t v) = None \<and> length (snd (set_f_pulse t v)) = length t \<and>
      (\<forall>r \<in> set (snd (set_f_pulse t v)). f_pulse r = as_float v)) \<and>
   (fst (set_u1 t v) = None \<and> length (snd (set_u1 t v)) = length t \<and>
      (\<forall>r \<in> set (snd (set_u1 t v)). u1 r = as_float v)) \<and>
   (fst (set_ur t v) = None \<and> length (snd (set_ur t v)) = length t \<and>
      (\<forall>r \<in> set (snd (set_ur t v)). ur r = as_float v)) \<and>
   (fst (set_time_between_meas t v) = None \<and>
      length (snd (set_time_between_meas t v)) = length t \<and>
      (\<forall>r \<in> set (snd (set_time_between_meas t v)). time_between_meas r = as_float v)) \<and>
   (fst (set_specimen_name t name) = None \<and>
      length (snd (set_specimen_name t name)) = length t \<and>
      (\<forall>r \<in> set (snd (set_specimen_name t name)). specimen_name r = Some name)) \<and>
   fst (set_integral_time t (Obj (Fin float_0_3))) = None"
proof -
  have acc: "py_in v allowed" if "v = NpNaN \<or> as_float v \<in> Fin ` set allowed" for allowed
    using that by (cases v) (auto simp: py_in_def)
  have a_bs: "v = NpNaN \<or> as_float v \<in> {Fin 1, Fin 10, Fin 100, Fin 1000} \<longrightarrow>
      set_bs t v = (None, map (\<lambda>r. r\<lparr>bs := as_float v\<rparr>) t)"
    using acc [of bs_allowed] by (auto simp: set_bs_def bs_allowed_def)
  have a_ls: "v = NpNaN \<or> as_float v \<in> {Fin 1, Fin 2, Fin 5, Fin 10, Fin 20, Fin 50, Fin 100,
        Fin 200, Fin 500, Fin 1000} \<longrightarrow>
      set_ls t v = (None, map (\<lambda>r. r\<lparr>ls := as_float v\<rparr>) t)"
    using acc [of ls_allowed] by (auto simp: set_ls_def ls_allowed_def)
  have a_it: "v = NpNaN \<or> as_float v \<in> {Fin float_0_3, Fin 1, Fin 3, Fin 10, Fin 30} \<longrightarrow>
      set_integral_time t v = (None, map (\<lambda>r. r\<lparr>integral_time := as_float v\<rparr>) t)"
    using acc [of integral_time_allowed]
    by (auto simp: set_integral_time_def integral_time_allowed_def)
  have rest: "(fst (set_bs t v) = None \<longrightarrow>
      length (snd (set_bs t v)) = length t \<and> (\<forall>r \<in> set (snd (set_bs t v)). bs r = as_float v)) \<and>
   (fst (set_ls t v) = None \<longrightarrow>
      length (snd (set_ls t v)) = length t \<and> (\<forall>r \<in> set (snd (set_ls t v)). ls r = as_float v)) \<and>
   (fst (set_integral_time t v) = None \<longrightarrow>
      length (snd (set_integral_time t v)) = length t \<and>
      (\<forall>r \<in> set (snd (set_integral_time t v)). integral_time r = as_float v)) \<and>
   (fst (set_f_pulse t v) = None \<and> length (snd (set_f_pulse t v)) = length t \<and>
      (\<forall>r \<in> set (snd (set_f_pulse t v)). f_pulse r = as_float v)) \<and>
   (fst (set_u1 t v) = None \<and> length (snd (set_u1 t v)) = length t \<and>
      (\<forall>r \<in> set (snd (set_u1 t v)). u1 r = as_float v)) \<and>
   (fst (set_ur t v) = None \<and> length (snd (set_ur t v)) = length t \<and>
      (\<forall>r \<in> set (snd (set_ur t v)). ur r = as_float v)) \<and>
   (fst (set_time_between_meas t v) = None \<and>
      length (snd (set_time_between_meas t v)) = length t \<and>
      (\<forall>r \<in> set (snd (set_time_between_meas t v)). time_between_meas r = as_float v)) \<and>
   (fst (set_specimen_name t name) = None \<and>
      length (snd (set_specimen_name t name)) = length t \<and>
      (\<forall>r \<in> set (snd (set_specimen_name t name)). specimen_name r = Some name)) \<and>
   fst (set_integral_time t (Obj (Fin float_0_3))) = None"
    by (simp add: set_bs_def set_ls_def set_integral_time_def set_f_pulse_def set_u1_def
        set_ur_def set_time_between_meas_def set_specimen_name_def py_in_def
        integral_time_allowed_def)
  show ?thesis
    using a_bs a_ls a_it rest by blast
qed

text \<open>
  On the table of the examples: \<open>set_ls(50)\<close>, \<open>set_bs(100)\<close>, \<open>set_integral_time(0.3)\<close>
  and \<open>set_ls()\<close> with its default \<open>np.nan\<close> raise nothing and fill the column; so do
  \<open>set_f_pulse(20)\<close> and \<open>set_specimen_name\<close>.
\<close>

theorem setter_broadcasts_witness:
  "set_ls example_table (Obj (Fin 50)) = (None, map (\<lambda>r. r\<lparr>ls := Fin 50\<rparr>) example_table) \<and>
   map ls (snd (set_ls example_table (Obj (Fin 50)))) = [Fin 50, Fin 50] \<and>
   map ls (snd (set_ls example_table NpNaN)) = [NaN, NaN] \<and>
   fst (set_bs example_table (Obj (Fin 100))) = None \<and>
   map bs (snd (set_bs example_table (Obj (Fin 100)))) = [Fin 100, Fin 100] \<and>
   fst (set_integral_time example_table (Obj (Fin float_0_3))) = None \<and>
   map integral_time (snd (set_integral_time example_table (Obj (Fin float_0_3)))) =
     [Fin float_0_3, Fin float_0_3] \<and>
   map f_pulse (snd (set_f_pulse example_table (Obj (Fin 20)))) = [Fin 20, Fin 20] \<and>
   map specimen_name (snd (set_specimen_name example_table ''Si-1'')) =
     [Some ''Si-1'', Some ''Si-1'']"
proof -
  have ls50: "set_ls example_table (Obj (Fin 50)) =
      (None, map (\<lambda>r. r\<lparr>ls := Fin 50\<rparr>) example_table)"
    using setter_broadcasts [where v = "Obj (Fin 50)" and t = example_table] by simp
  have lsnan: "set_ls example_table NpNaN = (None, map (\<lambda>r. r\<lparr>ls := NaN\<rparr>) example_table)"
    using setter_broadcasts [where v = NpNaN and t = example_table] by simp
  have bs100: "set_bs example_table (Obj (Fin 100)) =
      (None, map (\<lambda>r. r\<lparr>bs := Fin 100\<rparr>) example_table)"
    using setter_broadcasts [where v = "Obj (Fin 100)" and t = example_table] by simp
  have it03: "set_integral_time example_table (Obj (Fin float_0_3)) =
      (None, map (\<lambda>r. r\<lparr>integral_time := Fin float_0_3\<rparr>) example_table)"
    using setter_broadcasts [where v = "Obj (Fin float_0_3)" and t = example_table] by simp
  have len: "length example_table = 2"
    by (simp add: example_table_def)
  have fp: "map f_pulse (snd (set_f_pulse example_table (Obj (Fin 20)))) = [Fin 20, Fin 20]"
    by (simp add: set_f_pulse_def example_table_def)
  have sp: "map specimen_name (snd (set_specimen_name example_table ''Si-1'')) =
      [Some ''Si-1'', Some ''Si-1'']"
    by (simp add: set_specimen_name_def example_table_def)
  show ?thesis
    unfolding ls50 lsnan bs100 it03 using fp sp by (simp add: example_table_def)
qed

section \<open>Properties of the merge\<close>

subsection \<open>The temperature of a signal row\<close>

text \<open>
  C2, as the code has it. When \<open>read_from_d_t\<close> returns, the timestamps of the
  temperature rows are distinct, and a signal row that the table holds has the
  temperature of the temperature row with the greatest timestamp at or before its own,
  provided its timestamp lies between the first and the last timestamp of the temperature
  frame (bounds included); a signal row before the first temperature row, or after the
  last one, has NaN. A reader that had no row holds every signal row.
\<close>

theorem attached_temperature:
  assumes "read_from_d_t td self_data content dlts_data temperature_data = Inr t"
  shows "\<exists>dts tts.
      reconstruct_time td (map fst dlts_data) (findall_date content) = Inr dts \<and>
      reconstruct_time td (map fst temperature_data) (findall_date content) = Inr tts \<and>
      distinct tts \<and>
      (\<forall>i. i < length t \<and> i < length dlts_data \<longrightarrow>
         (let s = dts ! i; temp = zip tts (map snd temperature_data) in
          if (\<exists>(u, w) \<in> set temp. u \<le> s) \<and> (\<exists>(u, w) \<in> set temp. s \<le> u)
          then \<exists>(u, w) \<in> set temp. u \<le> s \<and> (\<forall>(u', w') \<in> set temp. u' \<le> s \<longrightarrow> u' \<le> u) \<and>
                 temperature_k (t ! i) = w
          else temperature_k (t ! i) = NaN)) \<and>
      (self_data = [] \<longrightarrow> length t = length dlts_data)"
proof -
  obtain dts tts grid where
    dts: "reconstruct_time td (map fst dlts_data) (findall_date content) = Inr dts" and
    tts: "reconstruct_time td (map fst temperature_data) (findall_date content) = Inr tts" and
    grid: "resample_ffill (zip tts (map snd temperature_data)) = Inr grid" and
    t: "t = setitem_columns self_data (merge_left (zip dts (map snd dlts_data)) grid)"
    using assms unfolding read_from_d_t_Inr by blast
  let ?temp = "zip tts (map snd temperature_data)"
  let ?obj = "sort_key fst ?temp"
  let ?left = "zip dts (map snd dlts_data)"
  let ?pick = "\<lambda>s. if (\<exists>x \<in> set ?temp. fst x \<le> s) \<and> (\<exists>x \<in> set ?temp. s \<le> fst x)
                     then ffill_at ?obj s else NaN"
  have ld: "length dts = length dlts_data" and lt: "length tts = length temperature_data"
    using reconstruct_time_length [OF dts] reconstruct_time_length [OF tts] by simp_all
  have merged: "merge_left ?left grid = map (\<lambda>(s, fr, v). (s, fr, v, ?pick s)) ?left"
    by (rule merge_left_resampled [OF grid])
  have lm: "length (merge_left ?left grid) = length dlts_data"
    unfolding merged using ld by simp
  have dist: "distinct tts"
    using resample_ffill_Inr(1) [OF grid] lt by simp
  have row: "temperature_k (t ! i) = ?pick (dts ! i)"
    if "i < length t" "i < length dlts_data" for i
  proof -
    have "t ! i = set_merged (if self_data = [] then blank_row else self_data ! i)
        (merge_left ?left grid ! i)"
      unfolding t using that lm by (intro nth_setitem_columns) (simp_all add: t)
    moreover have "merge_left ?left grid ! i =
        (dts ! i, fst (snd (dlts_data ! i)), snd (snd (dlts_data ! i)), ?pick (dts ! i))"
      unfolding merged using that ld by (simp add: case_prod_beta)
    ultimately show ?thesis
      by (simp only: temperature_k_set_merged)
  qed
  have pick_eq: "?pick s =
      (if (\<exists>(u, w) \<in> set ?temp. u \<le> s) \<and> (\<exists>(u, w) \<in> set ?temp. s \<le> u)
       then ffill_at ?obj s else NaN)" for s
    by (simp add: case_prod_beta)
  have latest: "\<exists>(u, w) \<in> set ?temp. u \<le> s \<and> (\<forall>(u', w') \<in> set ?temp. u' \<le> s \<longrightarrow> u' \<le> u) \<and>
      ffill_at ?obj s = w"
    if some: "\<exists>(u, w) \<in> set ?temp. u \<le> s" for s
  proof -
    obtain t0 v0 where "(t0, v0) \<in> set ?obj" "t0 \<le> s"
      using some by auto
    from ffill_at_latest [OF sorted_sort_key this]
    show ?thesis by auto
  qed
  have "\<forall>i. i < length t \<and> i < length dlts_data \<longrightarrow>
         (let s = dts ! i; temp = ?temp in
          if (\<exists>(u, w) \<in> set temp. u \<le> s) \<and> (\<exists>(u, w) \<in> set temp. s \<le> u)
          then \<exists>(u, w) \<in> set temp. u \<le> s \<and> (\<forall>(u', w') \<in> set temp. u' \<le> s \<longrightarrow> u' \<le> u) \<and>
                 temperature_k (t ! i) = w
          else temperature_k (t ! i) = NaN)"
  proof (intro allI impI)
    fix i
    assume i: "i < length t \<and> i < length dlts_data"
    show "let s = dts ! i; temp = ?temp in
          if (\<exists>(u, w) \<in> set temp. u \<le> s) \<and> (\<exists>(u, w) \<in> set temp. s \<le> u)
          then \<exists>(u, w) \<in> set temp. u \<le> s \<and> (\<forall>(u', w') \<in> set temp. u' \<le> s \<longrightarrow> u' \<le> u) \<and>
                 temperature_k (t ! i) = w
          else temperature_k (t ! i) = NaN"
    proof (cases "(\<exists>(u, w) \<in> set ?temp. u \<le> dts ! i) \<and> (\<exists>(u, w) \<in> set ?temp. dts ! i \<le> u)")
      case True
      have "temperature_k (t ! i) = ?pick (dts ! i)"
        using row i by blast
      also have "\<dots> = ffill_at ?obj (dts ! i)"
        unfolding pick_eq using True by (rule if_P)
      finally have "temperature_k (t ! i) = ffill_at ?obj (dts ! i)" .
      with latest [of "dts ! i"] True show ?thesis
        unfolding Let_def by auto
    next
      case False
      have "temperature_k (t ! i) = ?pick (dts ! i)"
        using row i by blast
      also have "\<dots> = NaN"
        unfolding pick_eq using False by (rule if_not_P)
      finally show ?thesis
        unfolding Let_def if_not_P [OF False] .
    qed
  qed
  moreover have "self_data = [] \<longrightarrow> length t = length dlts_data"
    using lm by (simp add: t length_setitem_columns)
  ultimately show ?thesis
    using dts tts dist by blast
qed

text \<open>
  Two temperature rows, 300 K at 09:00:02 and 305 K at 09:00:07: the signal row of
  09:00:00 has NaN and the signal row of 09:00:05 has 300 K.
\<close>

theorem attached_temperature_witness:
  "read_from_d_t strptime_hms_dmy [] one_date_text scenario_dlts
     [(''09:00:02'', Fin 300), (''09:00:07'', Fin 305)] =
   Inr (projr (read_from_d_t strptime_hms_dmy [] one_date_text scenario_dlts
     [(''09:00:02'', Fin 300), (''09:00:07'', Fin 305)])) \<and>
   length (projr (read_from_d_t strptime_hms_dmy [] one_date_text scenario_dlts
     [(''09:00:02'', Fin 300), (''09:00:07'', Fin 305)])) = 2 \<and>
   map temperature_k (projr (read_from_d_t strptime_hms_dmy [] one_date_text scenario_dlts
     [(''09:00:02'', Fin 300), (''09:00:07'', Fin 305)])) = [NaN, Fin 300]"
proof -
  let ?r = "read_from_d_t strptime_hms_dmy [] one_date_text scenario_dlts
     [(''09:00:02'', Fin 300), (''09:00:07'', Fin 305)]"
  have e: "?r = Inr (projr ?r)"
    by code_simp
  have k: "map temperature_k (projr ?r) = [NaN, Fin 300]"
    by code_simp
  from attached_temperature [OF e] have "length (projr ?r) = length scenario_dlts"
    by blast
  then show ?thesis
    using e k by (simp add: scenario_dlts_def)
qed

text \<open>
  The scenario of C2 as the claim states it: signal rows at 09:00:00 and 09:00:05, one
  temperature row, 300 K at 09:00:02. The grid is the single second 09:00:02, and both
  signal rows have NaN: the row of 09:00:05 does not get 300 K.
\<close>

theorem scenario_single_sample:
  "map_sum id (map temperature_k)
     (read_from_d_t strptime_hms_dmy init_data one_date_text scenario_dlts scenario_temperature) =
   Inr [NaN, NaN]"
  by code_simp

subsection \<open>When the call returns\<close>

text \<open>
  \<open>read_from_d_t\<close> returns a table exactly when the temperature frame has a row, the
  timestamps of both frames are reconstructed and those of the temperature frame are
  distinct.
\<close>

lemma read_from_d_t_returns:
  "(\<exists>t. read_from_d_t td self_data content dlts_data temperature_data = Inr t) \<longleftrightarrow>
   temperature_data \<noteq> [] \<and>
   (\<exists>dts tts.
      reconstruct_time td (map fst dlts_data) (findall_date content) = Inr dts \<and>
      reconstruct_time td (map fst temperature_data) (findall_date content) = Inr tts \<and>
      distinct tts)"
proof
  assume "\<exists>t. read_from_d_t td self_data content dlts_data temperature_data = Inr t"
  then obtain dts tts grid where
    dts: "reconstruct_time td (map fst dlts_data) (findall_date content) = Inr dts" and
    tts: "reconstruct_time td (map fst temperature_data) (findall_date content) = Inr tts" and
    grid: "resample_ffill (zip tts (map snd temperature_data)) = Inr grid" and
    ne: "temperature_data \<noteq> []"
    unfolding read_from_d_t_Inr by blast
  have "distinct tts"
    using resample_ffill_Inr(1) [OF grid] reconstruct_time_length [OF tts] by simp
  then show "temperature_data \<noteq> [] \<and>
    (\<exists>dts tts.
      reconstruct_time td (map fst dlts_data) (findall_date content) = Inr dts \<and>
      reconstruct_time td (map fst temperature_data) (findall_date content) = Inr tts \<and>
      distinct tts)"
    using dts tts ne by blast
next
  assume "temperature_data \<noteq> [] \<and>
    (\<exists>dts tts.
      reconstruct_time td (map fst dlts_data) (findall_date content) = Inr dts \<and>
      reconstruct_time td (map fst temperature_data) (findall_date content) = Inr tts \<and>
      distinct tts)"
  then obtain dts tts where
    dts: "reconstruct_time td (map fst dlts_data) (findall_date content) = Inr dts" and
    tts: "reconstruct_time td (map fst temperature_data) (findall_date content) = Inr tts" and
    dist: "distinct tts" and ne: "temperature_data \<noteq> []"
    by blast
  have "distinct (map fst (zip tts (map snd temperature_data)))"
    using dist reconstruct_time_length [OF tts] by simp
  then obtain grid where "resample_ffill (zip tts (map snd temperature_data)) = Inr grid"
    using resample_ffill_distinct by blast
  then show "\<exists>t. read_from_d_t td self_data content dlts_data temperature_data = Inr t"
    using dts tts ne unfolding read_from_d_t_Inr by blast
qed

subsection \<open>The rows of the table\<close>

text \<open>
  On a reader whose table has no row, as \<open>__init__\<close> leaves it: when \<open>read_from_d_t\<close>
  returns, the table has one row for each signal row, in the order of the signal rows.
  Its \<open>time\<close> column holds the reconstructed timestamps of the signal rows, each parsed
  from that row's time of day and a date of the file, and its \<open>frequency_hz\<close> and
  \<open>dlts_v\<close> columns hold the columns of the DLTS frame.
\<close>

theorem one_row_per_signal_row:
  assumes "read_from_d_t td [] content dlts_data temperature_data = Inr t"
  shows "\<exists>dts.
      reconstruct_time td (map fst dlts_data) (findall_date content) = Inr dts \<and>
      length t = length dlts_data \<and>
      map time t = map Some dts \<and>
      map frequency_hz t = map (\<lambda>(x, f, v). f) dlts_data \<and>
      map dlts_v t = map (\<lambda>(x, f, v). v) dlts_data \<and>
      (\<forall>i < length dlts_data.
         \<exists>d \<in> set (findall_date content). td (fst (dlts_data ! i) @ '' '' @ d) = Some (dts ! i))"
proof -
  obtain dts tts grid where
    dts: "reconstruct_time td (map fst dlts_data) (findall_date content) = Inr dts" and
    grid: "resample_ffill (zip tts (map snd temperature_data)) = Inr grid" and
    t: "t = setitem_columns [] (merge_left (zip dts (map snd dlts_data)) grid)"
    using assms unfolding read_from_d_t_Inr by blast
  let ?left = "zip dts (map snd dlts_data)"
  have ld: "length dts = length dlts_data"
    using reconstruct_time_length [OF dts] by simp
  have t_eq: "t = map (\<lambda>(s, fr, v). set_merged blank_row (s, fr, v,
      if (\<exists>x \<in> set (zip tts (map snd temperature_data)). fst x \<le> s) \<and>
         (\<exists>x \<in> set (zip tts (map snd temperature_data)). s \<le> fst x)
      then ffill_at (sort_key fst (zip tts (map snd temperature_data))) s else NaN)) ?left"
    unfolding t merge_left_resampled [OF grid]
    by (simp add: setitem_columns_def case_prod_beta comp_def)
  have "length t = length dlts_data"
    unfolding t_eq using ld by simp
  moreover have "map time t = map Some dts"
  proof -
    have "map time t = map (Some \<circ> fst) ?left"
      unfolding t_eq by (simp add: case_prod_beta set_merged_sel comp_def)
    also have "\<dots> = map Some (map fst ?left)"
      by simp
    finally show ?thesis
      using ld by simp
  qed
  moreover have "map frequency_hz t = map (\<lambda>(x, f, v). f) dlts_data"
  proof -
    have "map frequency_hz t = map (fst \<circ> snd) ?left"
      unfolding t_eq by (simp add: case_prod_beta set_merged_sel comp_def)
    also have "\<dots> = map fst (map snd ?left)"
      by simp
    also have "\<dots> = map fst (map snd dlts_data)"
      using ld by simp
    finally show ?thesis
      by (simp add: case_prod_beta comp_def)
  qed
  moreover have "map dlts_v t = map (\<lambda>(x, f, v). v) dlts_data"
  proof -
    have "map dlts_v t = map (snd \<circ> snd) ?left"
      unfolding t_eq by (simp add: case_prod_beta set_merged_sel comp_def)
    also have "\<dots> = map snd (map snd ?left)"
      by simp
    also have "\<dots> = map snd (map snd dlts_data)"
      using ld by simp
    finally show ?thesis
      by (simp add: case_prod_beta comp_def)
  qed
  moreover have "\<forall>i < length dlts_data.
      \<exists>d \<in> set (findall_date content). td (fst (dlts_data ! i) @ '' '' @ d) = Some (dts ! i)"
    using reconstruct_time_nth [OF dts] by simp
  ultimately show ?thesis
    using dts by blast
qed

text \<open>Three signal rows read into a reader without rows.\<close>

theorem one_row_per_signal_row_witness:
  "read_from_d_t strptime_hms_dmy [] one_date_text three_dlts scenario_temperature =
   Inr (projr (read_from_d_t strptime_hms_dmy [] one_date_text three_dlts scenario_temperature)) \<and>
   length (projr (read_from_d_t strptime_hms_dmy [] one_date_text three_dlts scenario_temperature)) = 3 \<and>
   map dlts_v (projr (read_from_d_t strptime_hms_dmy [] one_date_text three_dlts scenario_temperature)) =
     [Fin (1 / 2), Fin (1 / 4), Fin (1 / 8)]"
proof -
  let ?r = "read_from_d_t strptime_hms_dmy [] one_date_text three_dlts scenario_temperature"
  have e: "?r = Inr (projr ?r)"
    by code_simp
  from one_row_per_signal_row [OF e]
  have "length (projr ?r) = length three_dlts \<and> map dlts_v (projr ?r) = map (\<lambda>(x, f, v). v) three_dlts"
    by blast
  then show ?thesis
    using e by (simp add: three_dlts_def)
qed

text \<open>
  C1. The claim gives the table one row for each signal row, none dropped. A reader that
  has read the scenario holds two rows; when it then reads three signal rows, line 148
  assigns the merged frame into the table it holds, aligned on its index, where
  \<open>read_from_csv\<close> and \<open>read_from_hdf\<close> replace \<open>self.data\<close>. The table has two rows
  still, the first two signal rows, and the third signal row is dropped.
\<close>

theorem reused_reader_keeps_its_rows:
  "length after_first_read = 2 \<and>
   length three_dlts = 3 \<and>
   map_sum id length
     (read_from_d_t strptime_hms_dmy after_first_read one_date_text three_dlts scenario_temperature) =
     Inr 2 \<and>
   map_sum id (map dlts_v)
     (read_from_d_t strptime_hms_dmy after_first_read one_date_text three_dlts scenario_temperature) =
     Inr [Fin (1 / 2), Fin (1 / 4)]"
  by code_simp

subsection \<open>An empty frame\<close>




subsection \<open>Two temperature rows in one second\<close>

text \<open>
  C9, as the code has it. When the timestamps of both frames are reconstructed and two
  temperature rows have the same timestamp, \<open>read_from_d_t\<close> raises: the grid is not
  built, no row wins, and \<open>self.data\<close> is what it was.
\<close>

theorem duplicate_seconds_raise:
  assumes "reconstruct_time td (map fst dlts_data) (findall_date content) = Inr dts"
    and "reconstruct_time td (map fst temperature_data) (findall_date content) = Inr tts"
    and "\<not> distinct tts"
  shows "read_from_d_t td self_data content dlts_data temperature_data = Inl DuplicateLabels"
proof -
  have "length tts = length temperature_data"
    using reconstruct_time_length [OF assms(2)] by simp
  then have "\<not> distinct (map fst (zip tts (map snd temperature_data)))"
    using assms(3) by simp
  then have "resample_ffill (zip tts (map snd temperature_data)) = Inl DuplicateLabels"
    by (rule resample_ffill_duplicates)
  then show ?thesis
    using assms(1,2) by (simp add: read_from_d_t_def)
qed

text \<open>Three temperature rows, the first and the third at 09:00:02.\<close>

theorem duplicate_seconds_raise_witness:
  "read_from_d_t strptime_hms_dmy example_table one_date_text scenario_dlts
     [(''09:00:02'', Fin 300), (''09:00:04'', Fin 302), (''09:00:02'', Fin 301)] =
   Inl DuplicateLabels"
proof -
  have h1: "reconstruct_time strptime_hms_dmy (map fst scenario_dlts) (findall_date one_date_text) =
      Inr [1704099600, 1704099605]"
    by code_simp
  have h2: "reconstruct_time strptime_hms_dmy
      (map fst [(''09:00:02'', Fin 300), (''09:00:04'', Fin 302), (''09:00:02'', Fin 301)])
      (findall_date one_date_text) = Inr [1704099602, 1704099604, 1704099602]"
    by code_simp
  have h3: "\<not> distinct [1704099602, 1704099604, 1704099602 :: int]"
    by simp
  show ?thesis
    by (rule duplicate_seconds_raise [OF h1 h2 h3])
qed

text \<open>
  C9 as the claim states it: two temperature rows at 09:00:00, 300 K and then 301 K, and a
  signal row at 09:00:00. No table with 301 K comes back; the call raises.
\<close>

theorem same_second_raises:
  "read_from_d_t strptime_hms_dmy init_data one_date_text scenario_dlts
     [(''09:00:00'', Fin 300), (''09:00:00'', Fin 301)] = Inl DuplicateLabels"
  by code_simp

subsection \<open>The date of the file\<close>

text \<open>
  With one date in the file, every time of day of both frames is parsed with that date.
  With no date the call raises.
\<close>

lemma one_date_for_every_row:
  assumes "findall_date content = [d]"
    and "read_from_d_t td self_data content dlts_data temperature_data = Inr t"
  shows "\<exists>dts tts.
      to_datetime_series td (map (\<lambda>x. fst x @ '' '' @ d) dlts_data) = Inr dts \<and>
      to_datetime_series td (map (\<lambda>x. fst x @ '' '' @ d) temperature_data) = Inr tts"
  using assms(2) unfolding read_from_d_t_Inr assms(1) reconstruct_time_one_date
  by (auto simp: comp_def)

lemma no_date_raises:
  assumes "findall_date content = []"
  shows "\<exists>e. read_from_d_t td self_data content dlts_data temperature_data = Inl e"
proof (cases "dlts_data = [] \<and> temperature_data = []")
  case True
  then show ?thesis
    using read_from_d_t_no_temperature by simp
next
  case False
  then show ?thesis
    using assms by (auto simp: read_from_d_t_def reconstruct_time_no_date)
qed

text \<open>
  C4. The file of the example holds two dates, 01.01.2024 and then 15.12.2023.
  \<open>date_str\<close> is the list of both. With three signal rows the call raises, where the
  claim has it use 01.01.2024; with two signal rows the second row is dated 15.12.2023,
  where the claim has every row dated 01.01.2024.
\<close>

theorem two_dates_in_file:
  "findall_date two_dates_text = [''01.01.2024'', ''15.12.2023''] \<and>
   read_from_d_t strptime_hms_dmy init_data two_dates_text three_dlts scenario_temperature =
     Inl BroadcastError \<and>
   reconstruct_time strptime_hms_dmy (map fst scenario_dlts) (findall_date two_dates_text) =
     Inr [the (strptime_hms_dmy ''09:00:00 01.01.2024''),
          the (strptime_hms_dmy ''09:00:05 15.12.2023'')]"
  by code_simp

end
